theory Spec2Isabelle
  imports Main
begin

section \<open>JavaScript values\<close>

text \<open>
  The values that flow through the endpoint layer: request parameters, response payloads
  and the payload-plus-uncache envelope. Numbers are integers here (ids, counts).
\<close>

datatype jsval =
    JUndefined
  | JNull
  | JBool bool
  | JNum int
  | JStr string
  | JArr "jsval list"
  | JObj "(string \<times> jsval) list"

text \<open>JavaScript truthiness, as tested by \<^verbatim>\<open>if (v)\<close>, \<^verbatim>\<open>!v\<close> and \<^verbatim>\<open>a || b\<close>.\<close>

fun truthy :: "jsval \<Rightarrow> bool" where
  "truthy JUndefined = False"
| "truthy JNull = False"
| "truthy (JBool b) = b"
| "truthy (JNum n) = (n \<noteq> 0)"
| "truthy (JStr s) = (s \<noteq> [])"
| "truthy (JArr xs) = True"
| "truthy (JObj fs) = True"

text \<open>
  Property read \<^verbatim>\<open>v.p\<close> on a value that is neither null nor undefined, for the
  properties the code reads (\<^verbatim>\<open>uncache\<close>, \<^verbatim>\<open>response\<close>, \<^verbatim>\<open>id\<close>): only an object
  can carry them.
\<close>

fun getProp :: "jsval \<Rightarrow> string \<Rightarrow> jsval" where
  "getProp (JObj fs) p = (case map_of fs p of None \<Rightarrow> JUndefined | Some v \<Rightarrow> v)"
| "getProp v p = JUndefined"

fun isArray :: "jsval \<Rightarrow> bool" where
  "isArray (JArr xs) = True"
| "isArray v = False"

fun elements :: "jsval \<Rightarrow> jsval list" where
  "elements (JArr xs) = xs"
| "elements v = []"

text \<open>String methods used on paths.\<close>

definition endsWith :: "string \<Rightarrow> char \<Rightarrow> bool" where
  "endsWith s ch = (s \<noteq> [] \<and> last s = ch)"

definition startsWith :: "string \<Rightarrow> string \<Rightarrow> bool" where
  "startsWith s p = (take (length p) s = p)"

text \<open>\<^verbatim>\<open>s.split('*')[0]\<close>: the text before the first star.\<close>

definition splitFirst :: "string \<Rightarrow> string" where
  "splitFirst s = takeWhile (\<lambda>c. c \<noteq> CHR ''*'') s"

section \<open>Errors, promises and completions\<close>

datatype error =
    InvalidCacheConfiguration
  | MissingParameter "string list"
  | RequestFailed string nat
  | TypeError
  | Failure string

text \<open>A promise, looked at once it has settled.\<close>

datatype settled = Resolved jsval | Rejected error

text \<open>How a call of a JavaScript function ends, for the functions modelled here.\<close>

datatype completion = Throws error | ReturnsUndefined | ReturnsPromise settled

section \<open>The cache\<close>

text \<open>
  A cache entry is the raw value, or the promise of the request when the cache stores
  promises; such a promise is stored from inside its own success callback, so it resolves
  with the value.
\<close>

datatype entry = Value jsval | StoredPromise jsval

fun entryTruthy :: "entry \<Rightarrow> bool" where
  "entryTruthy (Value v) = truthy v"
| "entryTruthy (StoredPromise v) = True"

text \<open>\<^verbatim>\<open>Promise.resolve(x)\<close> of a value, of a stored promise, of undefined.\<close>

fun entryResolves :: "entry option \<Rightarrow> jsval" where
  "entryResolves None = JUndefined"
| "entryResolves (Some (Value v)) = v"
| "entryResolves (Some (StoredPromise v)) = v"

record cache =
  entries :: "(string \<times> entry) list"
  storePromises :: bool

text \<open>
  Modelled from the spec: the cache classes (caches/MemoryCache, caches/SessionCache) are
  not among the sources. The spec gives a key/value store with \<open>get\<close>, \<open>set\<close>,
  \<open>delete\<close>, \<open>deleteMany\<close> and \<open>listAllKeys\<close>; the code calls them \<^verbatim>\<open>get\<close>,
  \<^verbatim>\<open>set\<close>, \<^verbatim>\<open>clear\<close>, \<^verbatim>\<open>deletePaths\<close> and \<^verbatim>\<open>getAllPaths\<close>. The store is a
  list of (path, entry) pairs with one pair per path; a key that is not a string names no
  stored path.
\<close>

definition cache_get :: "cache \<Rightarrow> string \<Rightarrow> entry option" where
  "cache_get c k = map_of (entries c) k"

text \<open>
  Writing a key of an object or a map: the value is replaced where the key is present and
  added at the end where it is not.
\<close>

fun upsert :: "string \<Rightarrow> 'v \<Rightarrow> (string \<times> 'v) list \<Rightarrow> (string \<times> 'v) list" where
  "upsert k v [] = [(k, v)]"
| "upsert k v (kv # rest) = (if fst kv = k then (k, v) # rest else kv # upsert k v rest)"

text \<open>Modelled from the spec: \<open>set(key, value)\<close>, the class being absent.\<close>

definition cache_set :: "cache \<Rightarrow> string \<Rightarrow> entry \<Rightarrow> cache" where
  "cache_set c k e = c\<lparr>entries := upsert k e (entries c)\<rparr>"

text \<open>
  Modelled from the spec: \<open>delete(key)\<close>, called \<^verbatim>\<open>clear\<close> by the code, the class being
  absent. The key comes out of a response, so it is any value.
\<close>

definition cache_clear :: "cache \<Rightarrow> jsval \<Rightarrow> cache" where
  "cache_clear c key =
     (case key of
        JStr k \<Rightarrow> c\<lparr>entries := filter (\<lambda>kv. fst kv \<noteq> k) (entries c)\<rparr>
      | _ \<Rightarrow> c)"

text \<open>Modelled from the spec: \<open>listAllKeys()\<close>, the class being absent.\<close>

definition getAllPaths :: "cache \<Rightarrow> string list" where
  "getAllPaths c = map fst (entries c)"

text \<open>Modelled from the spec: \<open>deleteMany(keys)\<close>, the class being absent.\<close>

definition deletePaths :: "cache \<Rightarrow> string list \<Rightarrow> cache" where
  "deletePaths c ks = c\<lparr>entries := filter (\<lambda>kv. fst kv \<notin> set ks) (entries c)\<rparr>"

text \<open>
  Modelled from the spec: \<^verbatim>\<open>new MemoryCache()\<close> is the in-process map-backed cache,
  empty at first; \<^verbatim>\<open>new SessionCache(req)\<close> keeps its entries in the session object
  handed in. The storage mode of each is not stated; no result below depends on it.
\<close>

definition MemoryCache :: cache where
  "MemoryCache = \<lparr>entries = [], storePromises = True\<rparr>"

text \<open>
  Modelled from the spec: the session-scoped cache, whose storage is attached to the
  session object supplied by the caller.
\<close>

definition SessionCache :: "(string \<times> entry) list \<Rightarrow> cache" where
  "SessionCache session = \<lparr>entries = session, storePromises = False\<rparr>"

section \<open>Requests and the config object\<close>

text \<open>The options object handed to \<^verbatim>\<open>visitEndpoint\<close>: path, method (\<open>httpMethod\<close>) and params.\<close>

record options =
  path :: string
  httpMethod :: string
  params :: "(string \<times> jsval) list option"

text \<open>
  The uncache function held by a config: one of the two closures that
  \<^verbatim>\<open>_preProcessParams\<close> creates, or a function given by the caller.
\<close>

datatype uncacheFn =
    UncacheChangesCache
  | UncacheDoesNothing
  | UncacheSupplied "string list \<Rightarrow> jsval \<Rightarrow> cache option \<Rightarrow> settled \<times> cache option"

text \<open>
  The config object. \<open>api\<close> is a reference to the top-level instance. A field that is
  absent (undefined) is \<open>None\<close>; \<open>accessToken\<close> is a value, \<open>JUndefined\<close> when
  absent. \<open>visitEndpoint\<close> is the underlying request function: given the requests sent
  so far and the request, the settled outcome of the promise it returns.
\<close>

record config =
  api :: "nat option"
  cache :: "cache option"
  cacheType :: "string option"
  req :: "(string \<times> entry) list option"
  uncache :: "uncacheFn option"
  accessToken :: jsval
  visitEndpoint :: "(options list \<Rightarrow> options \<Rightarrow> settled) option"

text \<open>The empty object literal \<^verbatim>\<open>{}\<close>, the constructor's default config.\<close>

definition emptyConfig :: config where
  "emptyConfig =
     \<lparr>api = None, cache = None, cacheType = None, req = None, uncache = None,
      accessToken = JUndefined, visitEndpoint = None\<rparr>"

section \<open>EndpointCategory: pre-processing the config\<close>

text \<open>
  Config objects live in a store, addressed by reference, since
  \<^verbatim>\<open>const config = oldConfig\<close> makes \<open>config\<close> a second name of the caller's
  object and every assignment below writes into it.
\<close>

type_synonym heap = "nat \<Rightarrow> config option"

text \<open>\<^verbatim>\<open>if (!config.api) { config.api = this; }\<close>\<close>

definition initApi :: "nat \<Rightarrow> config \<Rightarrow> config" where
  "initApi this c = (if api c = None then c\<lparr>api := Some this\<rparr> else c)"

text \<open>
  The cache initialisation. The second test, \<^verbatim>\<open>cacheType === 'session' && config.req\<close>,
  succeeds with the session in hand; a string is falsy exactly when it is empty.
\<close>

definition initCache :: "config \<Rightarrow> error + config" where
  "initCache c =
     (if cache c = None then
        (if cacheType c = Some ''memory'' then Inr (c\<lparr>cache := Some MemoryCache\<rparr>)
         else
           (case (if cacheType c = Some ''session'' then req c else None) of
              Some session \<Rightarrow> Inr (c\<lparr>cache := Some (SessionCache session)\<rparr>)
            | None \<Rightarrow>
                if cacheType c \<noteq> None \<and> cacheType c \<noteq> Some []
                then Inl InvalidCacheConfiguration
                else Inr c))
      else Inr c)"

definition initUncache :: "config \<Rightarrow> config" where
  "initUncache c =
     (if uncache c = None then
        (if cache c \<noteq> None then c\<lparr>uncache := Some UncacheChangesCache\<rparr>
         else c\<lparr>uncache := Some UncacheDoesNothing\<rparr>)
      else c)"

text \<open>
  \<^verbatim>\<open>_preProcessParams(oldConfig)\<close> on the object at address \<open>oldConfig\<close>, called on
  the instance \<open>this\<close>. The result is the thrown error or the returned reference,
  with the store after the call.
\<close>

definition preProcessParams :: "nat \<Rightarrow> nat \<Rightarrow> heap \<Rightarrow> (error + nat) \<times> heap" where
  "preProcessParams this oldConfig h =
     (case h oldConfig of
        None \<Rightarrow> (Inl TypeError, h)
      | Some c0 \<Rightarrow>
          (let c1 = initApi this c0 in
           case initCache c1 of
             Inl e \<Rightarrow> (Inl e, h(oldConfig \<mapsto> c1))
           | Inr c2 \<Rightarrow> (Inr oldConfig, h(oldConfig \<mapsto> initUncache c2))))"

section \<open>The uncache function\<close>

text \<open>
  The list built by the two nested \<^verbatim>\<open>forEach\<close> loops: for a path ending in a star,
  every cached path that starts with the text before the path's first star, in cache order;
  for any other path, the path itself.
\<close>

fun pathsToUncache :: "string list \<Rightarrow> string list \<Rightarrow> string list" where
  "pathsToUncache [] cachedPaths = []"
| "pathsToUncache (p # ps) cachedPaths =
     (if endsWith p CHR ''*''
      then filter (\<lambda>cachedPath. startsWith cachedPath (splitFirst p)) cachedPaths
      else [p])
     @ pathsToUncache ps cachedPaths"

text \<open>
  The closure created when the config has a cache. It reads \<^verbatim>\<open>config.cache\<close> when it
  is called; were the cache gone by then, the read of \<^verbatim>\<open>getAllPaths\<close> would throw.
\<close>

definition uncacheChangesCache :: "string list \<Rightarrow> jsval \<Rightarrow> config \<Rightarrow> settled \<times> config" where
  "uncacheChangesCache paths response c =
     (case cache c of
        None \<Rightarrow> (Rejected TypeError, c)
      | Some ch \<Rightarrow>
          (Resolved response,
           c\<lparr>cache := Some (deletePaths ch (pathsToUncache paths (getAllPaths ch)))\<rparr>))"

text \<open>The closure created when there is no cache.\<close>

definition uncacheDoesNothing :: "string list \<Rightarrow> jsval \<Rightarrow> config \<Rightarrow> settled \<times> config" where
  "uncacheDoesNothing paths response c = (Resolved response, c)"

fun callUncache :: "uncacheFn \<Rightarrow> string list \<Rightarrow> jsval \<Rightarrow> config \<Rightarrow> settled \<times> config" where
  "callUncache UncacheChangesCache paths response c = uncacheChangesCache paths response c"
| "callUncache UncacheDoesNothing paths response c = uncacheDoesNothing paths response c"
| "callUncache (UncacheSupplied f) paths response c =
     (case f paths response (cache c) of (s, ch) \<Rightarrow> (s, c\<lparr>cache := ch\<rparr>))"

section \<open>wrapVisitEndpoint\<close>

text \<open>The config in use and the requests that reached the underlying \<^verbatim>\<open>visitEndpoint\<close>.\<close>

record world =
  conf :: config
  sent :: "options list"

text \<open>
  What one call of the wrapped function leaves behind: the value the call returns, the
  outcome of \<^verbatim>\<open>valuePromise\<close> when one was created, the world once the promise has
  settled, and the caller's options object (\<^verbatim>\<open>requestOptions\<close> is the same object).
\<close>

record wrapped =
  returned :: completion
  valuePromise :: "settled option"
  after :: world
  callerOptions :: options

definition cachedValue :: "config \<Rightarrow> options \<Rightarrow> entry option" where
  "cachedValue c opts = (case cache c of None \<Rightarrow> None | Some ch \<Rightarrow> cache_get ch (path opts))"

text \<open>The truthiness test \<^verbatim>\<open>if (cachedValue)\<close>; a missing entry is undefined.\<close>

fun cacheHit :: "entry option \<Rightarrow> bool" where
  "cacheHit None = False"
| "cacheHit (Some e) = entryTruthy e"

definition addAccessToken :: "config \<Rightarrow> options \<Rightarrow> options" where
  "addAccessToken c opts =
     opts\<lparr>params := Some (upsert ''access_token'' (accessToken c)
                          (case params opts of None \<Rightarrow> [] | Some ps \<Rightarrow> ps))\<rparr>"

definition uncacheExcluded :: "jsval \<Rightarrow> bool" where
  "uncacheExcluded endpointResults =
     (if \<not> truthy endpointResults then True
      else if \<not> truthy (getProp endpointResults ''uncache'') then True
      else \<not> isArray (getProp endpointResults ''uncache''))"

definition responseOf :: "jsval \<Rightarrow> jsval" where
  "responseOf endpointResults =
     (if uncacheExcluded endpointResults then endpointResults
      else getProp endpointResults ''response'')"

text \<open>The success callback's effect on the cache: save, then clear the listed keys.\<close>

definition saveInCache :: "cache \<Rightarrow> string \<Rightarrow> jsval \<Rightarrow> cache" where
  "saveInCache ch p response =
     cache_set ch p (if storePromises ch then StoredPromise response else Value response)"

definition uncacheKeys :: "jsval \<Rightarrow> cache \<Rightarrow> cache" where
  "uncacheKeys endpointResults ch =
     (if uncacheExcluded endpointResults then ch
      else fold (\<lambda>key c. cache_clear c key) (elements (getProp endpointResults ''uncache'')) ch)"

definition onSuccess :: "config \<Rightarrow> options \<Rightarrow> jsval \<Rightarrow> config" where
  "onSuccess c opts endpointResults =
     (case cache c of
        None \<Rightarrow> c
      | Some ch \<Rightarrow>
          c\<lparr>cache := Some (uncacheKeys endpointResults
                             (saveInCache ch (path opts) (responseOf endpointResults)))\<rparr>)"

text \<open>
  The function returned by \<^verbatim>\<open>wrapVisitEndpoint(config)\<close>, applied to \<open>opts\<close>. On a
  cache hit it returns a promise of the cached value. Otherwise the body creates
  \<^verbatim>\<open>valuePromise\<close> and ends without a \<^verbatim>\<open>return\<close> statement.
\<close>

definition wrapVisitEndpoint :: "options \<Rightarrow> world \<Rightarrow> wrapped" where
  "wrapVisitEndpoint opts w =
     (let c = conf w in
      if cacheHit (cachedValue c opts) then
        \<lparr>returned = ReturnsPromise (Resolved (entryResolves (cachedValue c opts))),
         valuePromise = None, after = w, callerOptions = opts\<rparr>
      else
        (let requestOptions = addAccessToken c opts in
         case visitEndpoint c of
           None \<Rightarrow>
             \<lparr>returned = Throws TypeError, valuePromise = None, after = w,
              callerOptions = requestOptions\<rparr>
         | Some visit \<Rightarrow>
             (case visit (sent w) requestOptions of
                Rejected e \<Rightarrow>
                  \<lparr>returned = ReturnsUndefined, valuePromise = Some (Rejected e),
                   after = w\<lparr>sent := sent w @ [requestOptions]\<rparr>,
                   callerOptions = requestOptions\<rparr>
              | Resolved endpointResults \<Rightarrow>
                  \<lparr>returned = ReturnsUndefined,
                   valuePromise = Some (Resolved (responseOf endpointResults)),
                   after = \<lparr>conf = onSuccess c opts endpointResults,
                            sent = sent w @ [requestOptions]\<rparr>,
                   callerOptions = requestOptions\<rparr>)))"

text \<open>The wrapped function as an endpoint sees it: the returned value and the new world.\<close>

definition wrappedVisit :: "options \<Rightarrow> world \<Rightarrow> completion \<times> world" where
  "wrappedVisit opts w = (let r = wrapVisitEndpoint opts w in (returned r, after r))"

section \<open>Endpoints\<close>

text \<open>
  An endpoint function runs with \<^verbatim>\<open>this.visitEndpoint\<close> and \<^verbatim>\<open>this.uncache\<close> bound
  by the instantiation; both are parameters here. Calling \<^verbatim>\<open>.then\<close> on undefined
  throws a TypeError.
\<close>

type_synonym visitFn = "options \<Rightarrow> world \<Rightarrow> completion \<times> world"

text \<open>The options of \<^verbatim>\<open>Other.endpoint\<close>, as its documentation types them.\<close>

record endpointOptions =
  o_path :: string
  o_method :: "string option"
  o_params :: "(string \<times> jsval) list option"

definition thenUncache :: "uncacheFn \<Rightarrow> string list \<Rightarrow> jsval \<Rightarrow> world \<Rightarrow> completion \<times> world" where
  "thenUncache unc paths response w =
     (case callUncache unc paths response (conf w) of
        (s, c) \<Rightarrow> (ReturnsPromise s, w\<lparr>conf := c\<rparr>))"

definition Other_endpoint :: "visitFn \<Rightarrow> uncacheFn \<Rightarrow> endpointOptions \<Rightarrow> world \<Rightarrow> completion \<times> world" where
  "Other_endpoint visit unc opts w =
     (case visit \<lparr>path = o_path opts,
                  httpMethod = (case o_method opts of
                              None \<Rightarrow> ''GET''
                            | Some m \<Rightarrow> if m = [] then ''GET'' else m),
                  params = o_params opts\<rparr> w of
        (Throws e, w1) \<Rightarrow> (Throws e, w1)
      | (ReturnsUndefined, w1) \<Rightarrow> (Throws TypeError, w1)
      | (ReturnsPromise (Rejected e), w1) \<Rightarrow> (ReturnsPromise (Rejected e), w1)
      | (ReturnsPromise (Resolved response), w1) \<Rightarrow> thenUncache unc [''*''] response w1)"

text \<open>
  Template literals turn a value into text. An integer of magnitude below \<open>2^53\<close> is
  printed with all its decimal digits. Beyond that JavaScript rounds and, from \<open>10^21\<close>,
  prints an exponent; that text is not computed here but taken from the parameter
  \<open>beyond\<close>. An array joins its elements with commas, null and undefined elements being
  empty; an object is \<^verbatim>\<open>[object Object]\<close>.
\<close>

fun digits :: "nat \<Rightarrow> string" where
  "digits n =
     (if n < 10 then [''0123456789'' ! n]
      else digits (n div 10) @ [''0123456789'' ! (n mod 10)])"

fun joinWith :: "string \<Rightarrow> string list \<Rightarrow> string" where
  "joinWith sep [] = []"
| "joinWith sep [x] = x"
| "joinWith sep (x # y # rest) = x @ sep @ joinWith sep (y # rest)"

definition numberText :: "(int \<Rightarrow> string) \<Rightarrow> int \<Rightarrow> string" where
  "numberText beyond n =
     (if \<bar>n\<bar> < 9007199254740992
      then (if n < 0 then CHR ''-'' # digits (nat (- n)) else digits (nat n))
      else beyond n)"

fun toString :: "(int \<Rightarrow> string) \<Rightarrow> jsval \<Rightarrow> string" where
  "toString beyond JUndefined = ''undefined''"
| "toString beyond JNull = ''null''"
| "toString beyond (JBool b) = (if b then ''true'' else ''false'')"
| "toString beyond (JNum n) = numberText beyond n"
| "toString beyond (JStr s) = s"
| "toString beyond (JArr xs) =
     joinWith '',''
       (map (\<lambda>x. if x = JNull \<or> x = JUndefined then [] else toString beyond x) xs)"
| "toString beyond (JObj fs) = ''[object Object]''"

text \<open>
  Modelled from the spec: \<^verbatim>\<open>common/prefix\<close> is not among the sources; the spec's
  paths start with \<^verbatim>\<open>/api/v1\<close>.
\<close>

definition prefix_v1 :: string where
  "prefix_v1 = ''/api/v1''"

text \<open>
  \<^verbatim>\<open>GroupSet.create\<close>; \<open>beyond\<close> is the text of the numbers that \<open>numberText\<close>
  leaves open. Its options are a plain object; a property that is not there reads as
  undefined. Reading \<^verbatim>\<open>response.id\<close> of null or undefined throws inside the
  callback, which rejects the promise.
\<close>

definition GroupSet_create ::
  "(int \<Rightarrow> string) \<Rightarrow> visitFn \<Rightarrow> uncacheFn \<Rightarrow> (string \<times> jsval) list \<Rightarrow> world
     \<Rightarrow> completion \<times> world" where
  "GroupSet_create beyond visit unc opts w =
     (case visit \<lparr>path = prefix_v1 @ ''/courses/''
                          @ toString beyond (getProp (JObj opts) ''courseId'')
                          @ ''/group_categories'',
                  httpMethod = ''POST'',
                  params = Some [(''name'',
                     if truthy (getProp (JObj opts) ''name'') then getProp (JObj opts) ''name''
                     else JStr ''Unnamed Group Set'')]\<rparr> w of
        (Throws e, w1) \<Rightarrow> (Throws e, w1)
      | (ReturnsUndefined, w1) \<Rightarrow> (Throws TypeError, w1)
      | (ReturnsPromise (Rejected e), w1) \<Rightarrow> (ReturnsPromise (Rejected e), w1)
      | (ReturnsPromise (Resolved response), w1) \<Rightarrow>
          (if response = JNull \<or> response = JUndefined then (ReturnsPromise (Rejected TypeError), w1)
           else thenUncache unc
                  [prefix_v1 @ ''/group_categories/''
                     @ toString beyond (getProp response ''id'')]
                  response w1))"

section \<open>The endpoint binder\<close>

text \<open>
  Modelled from the spec: \<^verbatim>\<open>instantiateEndpoint\<close> is not among the sources. The spec:
  every invocation validates the presence of all \<open>requiredParams\<close> and fails fast with
  \<open>MissingParameter\<close>, naming every missing field, before any network access; otherwise
  it delegates to the endpoint's function. A field is missing when the options do not
  carry it or carry undefined.
\<close>

definition missingParams :: "string list \<Rightarrow> (string \<times> jsval) list \<Rightarrow> string list" where
  "missingParams requiredParams opts =
     filter (\<lambda>p. getProp (JObj opts) p = JUndefined) requiredParams"

text \<open>
  Modelled from the spec: the bound operation. It fails fast with \<open>MissingParameter\<close>,
  naming every missing field, before the endpoint's function runs and so before any
  network access.
\<close>

definition instantiateEndpoint ::
  "string list \<Rightarrow> ((string \<times> jsval) list \<Rightarrow> world \<Rightarrow> completion \<times> world)
     \<Rightarrow> (string \<times> jsval) list \<Rightarrow> world \<Rightarrow> completion \<times> world" where
  "instantiateEndpoint requiredParams endpointCoreFunction opts w =
     (if missingParams requiredParams opts \<noteq> []
      then (ReturnsPromise (Rejected (MissingParameter (missingParams requiredParams opts))), w)
      else endpointCoreFunction opts w)"

section \<open>Dispatch with retry\<close>

text \<open>
  Modelled from the spec: the function that sends a request and retries it is not among the
  sources. The spec: on a transient failure the executor retries up to the configured
  retry count with the same parameters; a retry count of 0 means exactly one attempt; a
  non-retryable failure or the exhaustion of retries surfaces at once as
  \<open>RequestFailed\<close>, carrying the last underlying failure and the retry count. The
  transport is given by what its k-th invocation does (counting from 0).
\<close>

datatype attempt = Succeeds jsval | FailsTransient string | FailsFatal string

text \<open>
  Modelled from the spec: one request with \<open>retriesLeft\<close> retries still allowed after
  \<open>made\<close> invocations of the transport.
\<close>

fun dispatch :: "nat \<Rightarrow> (nat \<Rightarrow> attempt) \<Rightarrow> nat \<Rightarrow> nat \<Rightarrow> settled \<times> nat" where
  "dispatch numRetries transport 0 made =
     (case transport made of
        Succeeds v \<Rightarrow> (Resolved v, Suc made)
      | FailsTransient f \<Rightarrow> (Rejected (RequestFailed f numRetries), Suc made)
      | FailsFatal f \<Rightarrow> (Rejected (RequestFailed f numRetries), Suc made))"
| "dispatch numRetries transport (Suc retriesLeft) made =
     (case transport made of
        Succeeds v \<Rightarrow> (Resolved v, Suc made)
      | FailsTransient f \<Rightarrow> dispatch numRetries transport retriesLeft (Suc made)
      | FailsFatal f \<Rightarrow> (Rejected (RequestFailed f numRetries), Suc made))"

text \<open>
  Modelled from the spec: a call with retry count \<open>numRetries\<close>; the result is the
  outcome and the number of transport invocations made.
\<close>

definition sendWithRetry :: "nat \<Rightarrow> (nat \<Rightarrow> attempt) \<Rightarrow> settled \<times> nat" where
  "sendWithRetry numRetries transport = dispatch numRetries transport numRetries 0"

section \<open>Example inputs\<close>

text \<open>A transport that times out twice and then answers, and one that is down.\<close>

definition flaky :: "nat \<Rightarrow> attempt" where
  "flaky k = (if k < 2 then FailsTransient ''timeout'' else Succeeds (JNum 7))"

definition down :: "nat \<Rightarrow> attempt" where
  "down k = FailsTransient ''timeout''"

text \<open>Caches with some paths already stored, and a world around one of them.\<close>

definition twoCourses :: cache where
  "twoCourses =
     \<lparr>entries = [(''/api/v1/courses/42/quizzes'', Value (JNum 1)),
                (''/api/v1/courses/7'', Value (JNum 2))],
      storePromises = False\<rparr>"

definition oneKey :: cache where
  "oneKey = \<lparr>entries = [(''/ax'', Value (JNum 1))], storePromises = False\<rparr>"

definition warmCache :: cache where
  "warmCache =
     \<lparr>entries = [(''/api/v1/users/self'', Value (JStr ''me'')),
                (''/api/v1/courses/7'', Value (JNum 2))],
      storePromises = False\<rparr>"

definition warmWorld :: world where
  "warmWorld = \<lparr>conf = emptyConfig\<lparr>cache := Some warmCache\<rparr>, sent = []\<rparr>"

text \<open>
  An underlying request function that resolves with a fixed value, worlds around it with
  and without a cache, a well-behaved \<^verbatim>\<open>visitEndpoint\<close> for the endpoints, one request,
  and two responses: a plain payload and a payload in an envelope.
\<close>

definition respondsWith :: "jsval \<Rightarrow> options list \<Rightarrow> options \<Rightarrow> settled" where
  "respondsWith v history request = Resolved v"

definition valueCache :: cache where
  "valueCache = \<lparr>entries = [], storePromises = False\<rparr>"

definition cachingWorld :: "jsval \<Rightarrow> world" where
  "cachingWorld v =
     \<lparr>conf = emptyConfig\<lparr>cache := Some valueCache, accessToken := JStr ''configured'',
                          visitEndpoint := Some (respondsWith v)\<rparr>,
      sent = []\<rparr>"

definition plainWorld :: "jsval \<Rightarrow> world" where
  "plainWorld v =
     \<lparr>conf = emptyConfig\<lparr>accessToken := JStr ''configured'',
                          visitEndpoint := Some (respondsWith v)\<rparr>,
      sent = []\<rparr>"

definition getCourses :: options where
  "getCourses = \<lparr>path = ''/api/v1/courses'', httpMethod = ''GET'', params = None\<rparr>"

definition course :: jsval where
  "course = JObj [(''id'', JNum 1)]"





definition exponentText :: "int \<Rightarrow> string" where
  "exponentText n = ''1e+21''"

definition plainVisit :: "jsval \<Rightarrow> options \<Rightarrow> world \<Rightarrow> completion \<times> world" where
  "plainVisit v opts w = (ReturnsPromise (Resolved v), w\<lparr>sent := sent w @ [opts]\<rparr>)"

section \<open>The retry law\<close>

text \<open>
  While the next \<open>r\<close> invocations fail transiently and \<open>r\<close> retries are left, the
  dispatch consumes them all and goes on with no retry left.
\<close>

lemma dispatch_skip:
  "(\<And>k. k < r \<Longrightarrow> \<exists>f. transport (made + k) = FailsTransient f)
   \<Longrightarrow> dispatch n transport r made = dispatch n transport 0 (made + r)"
proof (induction r arbitrary: made)
  case 0
  then show ?case by simp
next
  case (Suc r)
  from Suc.prems [of 0] obtain f where f: "transport made = FailsTransient f" by auto
  have "dispatch n transport r (Suc made) = dispatch n transport 0 (Suc made + r)"
  proof (rule Suc.IH)
    fix k assume "k < r"
    then have "Suc k < Suc r" by simp
    from Suc.prems [OF this] show "\<exists>f. transport (Suc made + k) = FailsTransient f" by simp
  qed
  with f show ?case by simp
qed

text \<open>
  Claim C9. With retry count \<open>N\<close>: a transport that fails transiently \<open>N\<close> times and
  then succeeds gives the successful result after exactly \<open>N + 1\<close> invocations; a
  transport whose first \<open>N + 1\<close> invocations all fail transiently gives
  \<open>RequestFailed\<close>, carrying the last failure, after exactly \<open>N + 1\<close> invocations;
  and with retry count 0 there is exactly one invocation, whatever the transport does.
\<close>

theorem retry_law:
  "((\<forall>k<N. \<exists>f. transport k = FailsTransient f) \<and> transport N = Succeeds v
      \<longrightarrow> sendWithRetry N transport = (Resolved v, N + 1))
   \<and> ((\<forall>k\<le>N. \<exists>f. transport k = FailsTransient f)
      \<longrightarrow> (\<exists>f. transport N = FailsTransient f
            \<and> sendWithRetry N transport = (Rejected (RequestFailed f N), N + 1)))
   \<and> snd (sendWithRetry 0 transport) = 1"
proof (intro conjI impI)
  assume a: "(\<forall>k<N. \<exists>f. transport k = FailsTransient f) \<and> transport N = Succeeds v"
  then have "dispatch N transport N 0 = dispatch N transport 0 (0 + N)"
    by (intro dispatch_skip) simp
  with a show "sendWithRetry N transport = (Resolved v, N + 1)"
    by (simp add: sendWithRetry_def)
next
  assume a: "\<forall>k\<le>N. \<exists>f. transport k = FailsTransient f"
  then obtain f where f: "transport N = FailsTransient f" by auto
  from a have "dispatch N transport N 0 = dispatch N transport 0 (0 + N)"
    by (intro dispatch_skip) simp
  with f have "sendWithRetry N transport = (Rejected (RequestFailed f N), N + 1)"
    by (simp add: sendWithRetry_def)
  with f show "\<exists>f. transport N = FailsTransient f
            \<and> sendWithRetry N transport = (Rejected (RequestFailed f N), N + 1)" by blast
next
  show "snd (sendWithRetry 0 transport) = 1"
    by (simp add: sendWithRetry_def split: attempt.split)
qed

text \<open>The law at retry count 2, on a transport that recovers and on one that does not.\<close>

theorem retry_law_witness:
  "sendWithRetry 2 flaky = (Resolved (JNum 7), 3)
   \<and> sendWithRetry 2 down = (Rejected (RequestFailed ''timeout'' 2), 3)"
proof -
  have 1: "(\<forall>k<2. \<exists>f. flaky k = FailsTransient f) \<and> flaky 2 = Succeeds (JNum 7)"
    by (simp add: flaky_def)
  have 2: "\<forall>k\<le>2. \<exists>f. down k = FailsTransient f"
    by (simp add: down_def)
  from retry_law [of 2 flaky "JNum 7"] 1 have a: "sendWithRetry 2 flaky = (Resolved (JNum 7), 3)"
    by simp
  from retry_law [of 2 down] 2 have "\<exists>f. down 2 = FailsTransient f
            \<and> sendWithRetry 2 down = (Rejected (RequestFailed f 2), 3)" by simp
  then have b: "sendWithRetry 2 down = (Rejected (RequestFailed ''timeout'' 2), 3)"
    by (auto simp: down_def)
  from a b show ?thesis by simp
qed

section \<open>Pre-processing the config\<close>

text \<open>
  Claim C7, as the code has it. When the config carries no cache, and its \<open>cacheType\<close>
  is a non-empty string other than \<open>memory\<close>, and it is not \<open>session\<close> together with a
  \<open>req\<close>, the pre-processing throws the invalid-cache error. When the config carries a
  cache, the call returns, whatever the \<open>cacheType\<close>.
\<close>

theorem invalid_cacheType_fails:
  assumes "h oldConfig = Some c"
  shows "(cache c = None \<and> cacheType c = Some t \<and> t \<noteq> [] \<and> t \<noteq> ''memory''
            \<and> (t = ''session'' \<longrightarrow> req c = None)
          \<longrightarrow> fst (preProcessParams this oldConfig h) = Inl InvalidCacheConfiguration)
     \<and> (cache c \<noteq> None \<longrightarrow> fst (preProcessParams this oldConfig h) = Inr oldConfig)"
  using assms
  by (auto simp: preProcessParams_def initApi_def initCache_def Let_def)

text \<open>An unsupported type, the session type without a session, and a cache brought along.\<close>

theorem invalid_cacheType_fails_witness:
  "fst (preProcessParams 0 1 ((\<lambda>a. None)(1 \<mapsto> emptyConfig\<lparr>cacheType := Some ''redis''\<rparr>)))
     = Inl InvalidCacheConfiguration
   \<and> fst (preProcessParams 0 1 ((\<lambda>a. None)(1 \<mapsto> emptyConfig\<lparr>cacheType := Some ''session''\<rparr>)))
     = Inl InvalidCacheConfiguration
   \<and> fst (preProcessParams 0 1 ((\<lambda>a. None)(1 \<mapsto> emptyConfig\<lparr>cache := Some twoCourses\<rparr>)))
     = Inr 1"
proof -
  let ?redis = "emptyConfig\<lparr>cacheType := Some ''redis''\<rparr>"
  let ?session = "emptyConfig\<lparr>cacheType := Some ''session''\<rparr>"
  let ?cached = "emptyConfig\<lparr>cache := Some twoCourses\<rparr>"
  have 1: "((\<lambda>a. None)(1 \<mapsto> ?redis)) (1::nat) = Some ?redis" by simp
  have 2: "((\<lambda>a. None)(1 \<mapsto> ?session)) (1::nat) = Some ?session" by simp
  have 3: "((\<lambda>a. None)(1 \<mapsto> ?cached)) (1::nat) = Some ?cached" by simp
  from invalid_cacheType_fails [of "(\<lambda>a. None)(1 \<mapsto> ?redis)" 1 "?redis" "''redis''" 0] 1
  have a: "fst (preProcessParams 0 1 ((\<lambda>a. None)(1 \<mapsto> ?redis))) = Inl InvalidCacheConfiguration"
    by (simp add: emptyConfig_def)
  from invalid_cacheType_fails [of "(\<lambda>a. None)(1 \<mapsto> ?session)" 1 "?session" "''session''" 0] 2
  have b: "fst (preProcessParams 0 1 ((\<lambda>a. None)(1 \<mapsto> ?session))) = Inl InvalidCacheConfiguration"
    by (simp add: emptyConfig_def)
  from invalid_cacheType_fails [of "(\<lambda>a. None)(1 \<mapsto> ?cached)" 1 "?cached" "''x''" 0] 3
  have c: "fst (preProcessParams 0 1 ((\<lambda>a. None)(1 \<mapsto> ?cached))) = Inr 1"
    by (simp add: emptyConfig_def)
  from a b c show ?thesis by simp
qed

text \<open>
  Claim C7 as stated fails: a config that brings its own cache and names the unsupported
  type \<open>redis\<close> is accepted, the type being read only when no cache is given.
\<close>

theorem supplied_cache_counterexample:
  "fst (preProcessParams 0 1
          ((\<lambda>a. None)(1 \<mapsto> emptyConfig\<lparr>cache := Some MemoryCache, cacheType := Some ''redis''\<rparr>)))
     = Inr 1"
  by (simp add: preProcessParams_def initApi_def initCache_def emptyConfig_def)

text \<open>
  Claim C8, evaluated. The caller's object \<^verbatim>\<open>{cacheType: 'memory'}\<close> sits at address 1.
  The call returns that same address, and the object there has gained \<open>api\<close>,
  \<open>cache\<close> and \<open>uncache\<close>.
\<close>

theorem preProcessParams_mutates_argument:
  "preProcessParams 0 1 ((\<lambda>a. None)(1 \<mapsto> emptyConfig\<lparr>cacheType := Some ''memory''\<rparr>))
     = (Inr 1,
        (\<lambda>a. None)(1 \<mapsto> emptyConfig\<lparr>api := Some 0, cache := Some MemoryCache,
                       cacheType := Some ''memory'', uncache := Some UncacheChangesCache\<rparr>))"
  by (simp add: preProcessParams_def initApi_def initCache_def initUncache_def emptyConfig_def)

text \<open>The closure that changes the cache is the one created when a cache is there.\<close>

lemma initUncache_with_cache:
  "uncache c = None \<Longrightarrow> cache c = Some ch \<Longrightarrow> uncache (initUncache c) = Some UncacheChangesCache"
  by (simp add: initUncache_def)

section \<open>Invalidation\<close>

lemma map_of_filter_keys:
  "map_of (filter (\<lambda>kv. fst kv \<notin> S) xs) k = (if k \<in> S then None else map_of xs k)"
  by (induction xs) auto

lemma cache_get_deletePaths:
  "cache_get (deletePaths ch ks) k = (if k \<in> set ks then None else cache_get ch k)"
  by (simp add: cache_get_def deletePaths_def map_of_filter_keys)

lemma set_pathsToUncache:
  "set (pathsToUncache paths cached) =
     {k. \<exists>p \<in> set paths.
           if endsWith p CHR ''*'' then k \<in> set cached \<and> startsWith k (splitFirst p) else k = p}"
  by (induction paths) auto

lemma splitFirst_pattern:
  "CHR ''*'' \<notin> set P \<Longrightarrow> splitFirst (P @ ''*'') = P \<and> endsWith (P @ ''*'') CHR ''*''"
  by (simp add: splitFirst_def endsWith_def takeWhile_append)

text \<open>
  Claim C2, as the code has it. The prefix of a path that ends in a star is the text before
  its first star; for a pattern \<open>P*\<close> with no star inside \<open>P\<close> it is \<open>P\<close>. When
  uncache resolves, every listed key that starts with the prefix of some such path of the
  set is gone, and every key that starts with the prefix of none of them and is not one of
  the set's other paths has the entry it had.
\<close>

theorem uncache_wildcard:
  assumes "cache c = Some ch"
  shows "\<exists>ch'. uncacheChangesCache paths response c = (Resolved response, c\<lparr>cache := Some ch'\<rparr>)
     \<and> (\<forall>P k. CHR ''*'' \<notin> set P \<and> P @ ''*'' \<in> set paths \<and> k \<in> set (getAllPaths ch)
            \<and> startsWith k P \<longrightarrow> cache_get ch' k = None)
     \<and> (\<forall>p k. p \<in> set paths \<and> endsWith p CHR ''*'' \<and> k \<in> set (getAllPaths ch)
            \<and> startsWith k (splitFirst p) \<longrightarrow> cache_get ch' k = None)
     \<and> (\<forall>k. (\<forall>p \<in> set paths. if endsWith p CHR ''*'' then \<not> startsWith k (splitFirst p) else p \<noteq> k)
            \<longrightarrow> cache_get ch' k = cache_get ch k)"
proof -
  define ch' where "ch' = deletePaths ch (pathsToUncache paths (getAllPaths ch))"
  have run: "uncacheChangesCache paths response c = (Resolved response, c\<lparr>cache := Some ch'\<rparr>)"
    using assms by (simp add: uncacheChangesCache_def ch'_def)
  have gone: "cache_get ch' k = None"
    if "p \<in> set paths" "endsWith p CHR ''*''" "k \<in> set (getAllPaths ch)"
       "startsWith k (splitFirst p)" for p k
  proof -
    from that have "k \<in> set (pathsToUncache paths (getAllPaths ch))"
      unfolding set_pathsToUncache by auto
    then show ?thesis by (simp add: ch'_def cache_get_deletePaths)
  qed
  have gone_P: "cache_get ch' k = None"
    if "CHR ''*'' \<notin> set P" "P @ ''*'' \<in> set paths" "k \<in> set (getAllPaths ch)" "startsWith k P"
    for P k
    using gone [of "P @ ''*''" k] that splitFirst_pattern [of P] by simp
  have kept: "cache_get ch' k = cache_get ch k"
    if "\<forall>p \<in> set paths. if endsWith p CHR ''*'' then \<not> startsWith k (splitFirst p) else p \<noteq> k"
    for k
  proof -
    from that have "k \<notin> set (pathsToUncache paths (getAllPaths ch))"
      unfolding set_pathsToUncache by auto
    then show ?thesis by (simp add: ch'_def cache_get_deletePaths)
  qed
  from run gone gone_P kept show ?thesis by blast
qed

text \<open>One wildcard over a cache of two courses: the matching key goes, the other stays.\<close>

theorem uncache_wildcard_witness:
  "uncacheChangesCache [''/api/v1/courses/42/*''] JNull (emptyConfig\<lparr>cache := Some twoCourses\<rparr>)
     = (Resolved JNull,
        emptyConfig\<lparr>cache := Some \<lparr>entries = [(''/api/v1/courses/7'', Value (JNum 2))],
                                     storePromises = False\<rparr>\<rparr>)
   \<and> (\<exists>ch'. cache_get ch' ''/api/v1/courses/42/quizzes'' = None
          \<and> cache_get ch' ''/api/v1/courses/7'' = Some (Value (JNum 2)))"
proof -
  let ?c = "emptyConfig\<lparr>cache := Some twoCourses\<rparr>"
  have c: "cache ?c = Some twoCourses" by simp
  from uncache_wildcard [OF c, of "[''/api/v1/courses/42/*'']" JNull]
  obtain ch' where run: "uncacheChangesCache [''/api/v1/courses/42/*''] JNull ?c
        = (Resolved JNull, ?c\<lparr>cache := Some ch'\<rparr>)"
    and gone: "\<forall>P k. CHR ''*'' \<notin> set P \<and> P @ ''*'' \<in> set [''/api/v1/courses/42/*'']
            \<and> k \<in> set (getAllPaths twoCourses) \<and> startsWith k P \<longrightarrow> cache_get ch' k = None"
    and kept: "\<forall>k. (\<forall>p \<in> set [''/api/v1/courses/42/*''].
              if endsWith p CHR ''*'' then \<not> startsWith k (splitFirst p) else p \<noteq> k)
            \<longrightarrow> cache_get ch' k = cache_get twoCourses k"
    by blast
  have 1: "cache_get ch' ''/api/v1/courses/42/quizzes'' = None"
    using gone [rule_format, of "''/api/v1/courses/42/''" "''/api/v1/courses/42/quizzes''"]
    by (simp add: getAllPaths_def twoCourses_def startsWith_def)
  have 2: "cache_get ch' ''/api/v1/courses/7'' = Some (Value (JNum 2))"
    using kept [rule_format, of "''/api/v1/courses/7''"]
    by (simp add: endsWith_def splitFirst_def startsWith_def cache_get_def twoCourses_def)
  have 3: "uncacheChangesCache [''/api/v1/courses/42/*''] JNull ?c
     = (Resolved JNull,
        emptyConfig\<lparr>cache := Some \<lparr>entries = [(''/api/v1/courses/7'', Value (JNum 2))],
                                     storePromises = False\<rparr>\<rparr>)"
    by (simp add: uncacheChangesCache_def deletePaths_def getAllPaths_def twoCourses_def
        endsWith_def splitFirst_def startsWith_def emptyConfig_def)
  from 1 2 3 show ?thesis by blast
qed

text \<open>
  Claim C2 as stated fails for the pattern \<^verbatim>\<open>/a*b*\<close>, that is \<open>P*\<close> with
  \<open>P\<close> = \<^verbatim>\<open>/a*b\<close>: the cached key \<^verbatim>\<open>/ax\<close> does not start with \<open>P\<close> and is not
  named in the set, yet it is deleted, since it starts with \<^verbatim>\<open>/a\<close>.
\<close>

theorem uncache_inner_star_counterexample:
  "uncacheChangesCache [''/a*b*''] JNull (emptyConfig\<lparr>cache := Some oneKey\<rparr>)
     = (Resolved JNull, emptyConfig\<lparr>cache := Some \<lparr>entries = [], storePromises = False\<rparr>\<rparr>)
   \<and> cache_get oneKey ''/ax'' = Some (Value (JNum 1))
   \<and> \<not> startsWith ''/ax'' ''/a*b''
   \<and> ''/ax'' \<notin> set [''/a*b*'']"
  by (simp add: uncacheChangesCache_def deletePaths_def getAllPaths_def oneKey_def
        endsWith_def splitFirst_def startsWith_def emptyConfig_def cache_get_def)

lemma pathsToUncache_star: "pathsToUncache [''*''] cached = cached"
  by (simp add: endsWith_def splitFirst_def startsWith_def)

lemma deletePaths_all: "entries (deletePaths ch (getAllPaths ch)) = []"
  by (simp add: deletePaths_def getAllPaths_def filter_empty_conv)

lemma uncache_star:
  "cache c = Some ch \<Longrightarrow>
   uncacheChangesCache [''*''] r c = (Resolved r, c\<lparr>cache := Some (ch\<lparr>entries := []\<rparr>)\<rparr>)"
  unfolding uncacheChangesCache_def pathsToUncache_star
  by (simp add: deletePaths_def getAllPaths_def filter_empty_conv)

lemma uncache_star_none:
  "cache c = None \<Longrightarrow> uncacheChangesCache paths r c = (Rejected TypeError, c)"
  by (simp add: uncacheChangesCache_def)

text \<open>
  Claim C10. \<^verbatim>\<open>Other.endpoint\<close>, bound to the uncache closure of an instance with a
  cache: whatever the request function did, once the call has resolved the cache holds no
  entry at all.
\<close>

theorem Other_endpoint_empties_cache:
  assumes "Other_endpoint visit UncacheChangesCache opts w = (ReturnsPromise (Resolved r), w')"
  shows "\<exists>ch. cache (conf w') = Some ch \<and> entries ch = [] \<and> getAllPaths ch = []"
proof -
  let ?request = "\<lparr>path = o_path opts,
                   httpMethod = (case o_method opts of
                               None \<Rightarrow> ''GET''
                             | Some m \<Rightarrow> if m = [] then ''GET'' else m),
                   params = o_params opts\<rparr>"
  obtain out w1 where v: "visit ?request w = (out, w1)" by (cases "visit ?request w")
  with assms obtain response where out: "out = ReturnsPromise (Resolved response)"
    and un: "thenUncache UncacheChangesCache [''*''] response w1 = (ReturnsPromise (Resolved r), w')"
    by (auto simp: Other_endpoint_def split: completion.splits settled.splits)
  show ?thesis
  proof (cases "cache (conf w1)")
    case None
    with un show ?thesis by (simp add: thenUncache_def uncache_star_none)
  next
    case (Some ch)
    with un have "conf w' = (conf w1)\<lparr>cache := Some (ch\<lparr>entries := []\<rparr>)\<rparr>"
      by (auto simp: thenUncache_def uncache_star)
    then show ?thesis by (simp add: getAllPaths_def)
  qed
qed

text \<open>A hit on a cache of two paths: the value comes back and both paths are gone.\<close>

theorem Other_endpoint_empties_cache_witness:
  "Other_endpoint wrappedVisit UncacheChangesCache
      \<lparr>o_path = ''/api/v1/users/self'', o_method = None, o_params = None\<rparr> warmWorld
     = (ReturnsPromise (Resolved (JStr ''me'')),
        \<lparr>conf = emptyConfig\<lparr>cache := Some \<lparr>entries = [], storePromises = False\<rparr>\<rparr>, sent = []\<rparr>)
   \<and> (\<exists>ch. cache (conf \<lparr>conf = emptyConfig\<lparr>cache := Some \<lparr>entries = [], storePromises = False\<rparr>\<rparr>,
                           sent = []\<rparr>) = Some ch \<and> entries ch = [] \<and> getAllPaths ch = [])"
proof -
  have run: "Other_endpoint wrappedVisit UncacheChangesCache
      \<lparr>o_path = ''/api/v1/users/self'', o_method = None, o_params = None\<rparr> warmWorld
     = (ReturnsPromise (Resolved (JStr ''me'')),
        \<lparr>conf = emptyConfig\<lparr>cache := Some \<lparr>entries = [], storePromises = False\<rparr>\<rparr>, sent = []\<rparr>)"
    by (simp add: Other_endpoint_def wrappedVisit_def wrapVisitEndpoint_def cachedValue_def
        cache_get_def warmWorld_def warmCache_def emptyConfig_def thenUncache_def uncache_star)
  from Other_endpoint_empties_cache [OF run] run show ?thesis by simp
qed

section \<open>The wrapped visitEndpoint\<close>

lemmas eval_defs = wrapVisitEndpoint_def cachedValue_def cache_get_def addAccessToken_def
  onSuccess_def saveInCache_def uncacheKeys_def uncacheExcluded_def responseOf_def cache_set_def
  cache_clear_def emptyConfig_def Let_def

subsection \<open>Cache lookups after the cache operations\<close>

lemma map_of_upsert: "map_of (upsert k v xs) = (map_of xs)(k \<mapsto> v)"
  by (induction xs) auto

lemma cache_get_cache_set:
  "cache_get (cache_set ch k e) k' = (if k' = k then Some e else cache_get ch k')"
  by (simp add: cache_get_def cache_set_def map_of_upsert)

lemma map_of_filter_key:
  "map_of (filter (\<lambda>kv. fst kv \<noteq> k) xs) k' = (if k' = k then None else map_of xs k')"
  by (induction xs) auto

lemma cache_get_cache_clear:
  "cache_get (cache_clear ch key) k = (if key = JStr k then None else cache_get ch k)"
  by (cases key) (auto simp: cache_get_def cache_clear_def map_of_filter_key)

lemma cache_get_fold_clear:
  "cache_get (fold (\<lambda>key c. cache_clear c key) keys ch) k
     = (if JStr k \<in> set keys then None else cache_get ch k)"
  by (induction keys arbitrary: ch) (auto simp: cache_get_cache_clear)

lemma cache_get_onSuccess_all:
  assumes "cache c = Some ch"
  shows "\<exists>ch'. cache (onSuccess c opts endpointResults) = Some ch'
     \<and> onSuccess c opts endpointResults = c\<lparr>cache := Some ch'\<rparr>
     \<and> (\<forall>k. cache_get ch' k =
           (if \<not> uncacheExcluded endpointResults
                \<and> JStr k \<in> set (elements (getProp endpointResults ''uncache''))
            then None
            else if k = path opts
            then Some (if storePromises ch then StoredPromise (responseOf endpointResults)
                       else Value (responseOf endpointResults))
            else cache_get ch k))"
  using assms
  by (simp add: onSuccess_def uncacheKeys_def saveInCache_def cache_get_fold_clear
      cache_get_cache_set)

lemma cache_get_onSuccess:
  assumes "cache c = Some ch"
  shows "\<exists>ch'. cache (onSuccess c opts endpointResults) = Some ch'
     \<and> cache_get ch' (path opts) =
         (if \<not> uncacheExcluded endpointResults
              \<and> JStr (path opts) \<in> set (elements (getProp endpointResults ''uncache''))
          then None
          else Some (if storePromises ch then StoredPromise (responseOf endpointResults)
                     else Value (responseOf endpointResults)))"
  using cache_get_onSuccess_all [OF assms, of opts endpointResults] by auto

subsection \<open>What a call returns\<close>

text \<open>On every miss that reaches the request function, the call itself returns undefined.\<close>

lemma every_miss_returns_undefined:
  "\<not> cacheHit (cachedValue (conf w) opts) \<Longrightarrow> visitEndpoint (conf w) = Some visit
   \<Longrightarrow> returned (wrapVisitEndpoint opts w) = ReturnsUndefined"
  by (simp add: wrapVisitEndpoint_def Let_def split: settled.split)

text \<open>
  Claim C6, evaluated. A request for the course list with no cache configured and a request
  function that resolves with a course: the wrapped function returns undefined; the promise
  that resolves with the course is created and dropped.
\<close>

theorem miss_returns_undefined:
  "returned (wrapVisitEndpoint getCourses (plainWorld course)) = ReturnsUndefined
   \<and> valuePromise (wrapVisitEndpoint getCourses (plainWorld course)) = Some (Resolved course)"
  by (simp add: eval_defs plainWorld_def getCourses_def course_def respondsWith_def)

text \<open>
  Claim C4, evaluated. The caller's params carry \<^verbatim>\<open>access_token: 'caller'\<close> and the
  config's token is \<^verbatim>\<open>configured\<close>: the request that is sent carries the config's.
\<close>

theorem caller_token_overwritten:
  "sent (after (wrapVisitEndpoint
                  (getCourses\<lparr>params := Some [(''access_token'', JStr ''caller'')]\<rparr>)
                  (plainWorld course)))
     = [getCourses\<lparr>params := Some [(''access_token'', JStr ''configured'')]\<rparr>]"
  by (simp add: eval_defs plainWorld_def getCourses_def course_def respondsWith_def)

subsection \<open>Reading twice\<close>

text \<open>
  What does hold of two reads in a row: when the first is a miss whose response is not an
  envelope, and the response is truthy or the cache stores promises, the second is served
  from the cache with that response and sends nothing.
\<close>

lemma hit_returns_cached:
  "cachedValue (conf w) opts = Some e \<Longrightarrow> entryTruthy e \<Longrightarrow>
   wrapVisitEndpoint opts w =
     \<lparr>returned = ReturnsPromise (Resolved (entryResolves (Some e))), valuePromise = None,
      after = w, callerOptions = opts\<rparr>"
  by (simp add: wrapVisitEndpoint_def Let_def)

lemma second_read_served_from_cache:
  assumes "cache (conf w) = Some ch"
    and "\<not> cacheHit (cachedValue (conf w) opts)"
    and "visitEndpoint (conf w) = Some visit"
    and "visit (sent w) (addAccessToken (conf w) opts) = Resolved v"
    and "uncacheExcluded v"
    and "truthy v \<or> storePromises ch"
  shows "returned (wrapVisitEndpoint opts (after (wrapVisitEndpoint opts w)))
           = ReturnsPromise (Resolved v)
     \<and> sent (after (wrapVisitEndpoint opts (after (wrapVisitEndpoint opts w))))
           = sent w @ [addAccessToken (conf w) opts]"
proof -
  let ?w1 = "after (wrapVisitEndpoint opts w)"
  have w1: "?w1 = \<lparr>conf = onSuccess (conf w) opts v, sent = sent w @ [addAccessToken (conf w) opts]\<rparr>"
    using assms(2,3,4) by (simp add: wrapVisitEndpoint_def Let_def)
  from cache_get_onSuccess [OF assms(1), of opts v] assms(5)
  obtain ch' where ch': "cache (onSuccess (conf w) opts v) = Some ch'"
    and e: "cache_get ch' (path opts)
              = Some (if storePromises ch then StoredPromise (responseOf v) else Value (responseOf v))"
    by auto
  let ?e = "if storePromises ch then StoredPromise v else Value v"
  from assms(5) e have e': "cache_get ch' (path opts) = Some ?e" by (simp add: responseOf_def)
  from ch' e' have cv: "cachedValue (conf ?w1) opts = Some ?e"
    by (simp add: w1 cachedValue_def)
  from assms(6) have hit: "entryTruthy ?e" by auto
  have res: "entryResolves (Some ?e) = v" by simp
  from hit_returns_cached [OF cv hit] res
  have "wrapVisitEndpoint opts ?w1 =
      \<lparr>returned = ReturnsPromise (Resolved v), valuePromise = None, after = ?w1,
       callerOptions = opts\<rparr>"
    by simp
  then show ?thesis by (simp add: w1)
qed

text \<open>
  Claim C1, evaluated. Two reads of the course list through a value-storing cache. With a
  course as the response, the first call returns undefined and the second a promise of the
  cached course: one request, two different return values. With the response 0 the stored
  value fails the truthiness test and the second read sends a second request.
\<close>

theorem repeated_read_diverges:
  "returned (wrapVisitEndpoint getCourses (cachingWorld course)) = ReturnsUndefined
   \<and> returned (wrapVisitEndpoint getCourses
                 (after (wrapVisitEndpoint getCourses (cachingWorld course))))
       = ReturnsPromise (Resolved course)
   \<and> length (sent (after (wrapVisitEndpoint getCourses
                 (after (wrapVisitEndpoint getCourses (cachingWorld (JNum 0))))))) = 2"
  by (simp add: eval_defs cachingWorld_def valueCache_def getCourses_def course_def
      respondsWith_def)

subsection \<open>Success: store, then uncache\<close>




section \<open>Required parameters\<close>

text \<open>
  Claim C3. When a required field is omitted, the bound operation fails with
  \<open>MissingParameter\<close> naming exactly the required fields that are missing, the world
  is as it was (no request was sent), and the endpoint's function, where a default might
  be filled in, never ran.
\<close>

theorem required_params_checked:
  assumes "p \<in> set requiredParams" and "getProp (JObj opts) p = JUndefined"
  shows "instantiateEndpoint requiredParams endpointCoreFunction opts w =
           (ReturnsPromise (Rejected (MissingParameter (missingParams requiredParams opts))), w)
     \<and> sent (snd (instantiateEndpoint requiredParams endpointCoreFunction opts w)) = sent w
     \<and> p \<in> set (missingParams requiredParams opts)
     \<and> (\<forall>q. q \<in> set (missingParams requiredParams opts)
              \<longleftrightarrow> (q \<in> set requiredParams \<and> getProp (JObj opts) q = JUndefined))"
proof -
  from assms have "p \<in> set (missingParams requiredParams opts)"
    by (simp add: missingParams_def)
  moreover from this have "missingParams requiredParams opts \<noteq> []" by auto
  ultimately show ?thesis
    by (auto simp: instantiateEndpoint_def missingParams_def)
qed

text \<open>\<^verbatim>\<open>GroupSet.create\<close> called with a course id and no name.\<close>

theorem required_params_checked_witness:
  "instantiateEndpoint [''courseId'', ''name''] (GroupSet_create exponentText (plainVisit course) UncacheDoesNothing)
      [(''courseId'', JNum 42)] (plainWorld course)
     = (ReturnsPromise (Rejected (MissingParameter [''name''])), plainWorld course)
   \<and> sent (snd (instantiateEndpoint [''courseId'', ''name'']
                  (GroupSet_create exponentText (plainVisit course) UncacheDoesNothing)
                  [(''courseId'', JNum 42)] (plainWorld course))) = []"
proof -
  have 1: "''name'' \<in> set [''courseId'', ''name'']" by simp
  have 2: "getProp (JObj [(''courseId'', JNum 42)]) ''name'' = JUndefined" by simp
  from required_params_checked [OF 1 2, of "GroupSet_create exponentText (plainVisit course) UncacheDoesNothing"
      "plainWorld course"]
  show ?thesis by (simp add: missingParams_def plainWorld_def)
qed

text \<open>
  The default name in \<^verbatim>\<open>GroupSet.create\<close> is reached only with a name that is supplied
  and falsy, such as the empty string.
\<close>

lemma digits_42: "digits 42 = ''42''"
  by simp

lemma GroupSet_create_default_name:
  "instantiateEndpoint [''courseId'', ''name''] (GroupSet_create exponentText (plainVisit course) UncacheDoesNothing)
      [(''courseId'', JNum 42), (''name'', JStr [])] (plainWorld course)
     = (ReturnsPromise (Resolved course),
        (plainWorld course)\<lparr>sent :=
           [\<lparr>path = ''/api/v1/courses/42/group_categories'', httpMethod = ''POST'',
             params = Some [(''name'', JStr ''Unnamed Group Set'')]\<rparr>]\<rparr>)"
  by (simp add: instantiateEndpoint_def missingParams_def GroupSet_create_def plainVisit_def
      plainWorld_def thenUncache_def uncacheDoesNothing_def course_def prefix_v1_def
      numberText_def digits_42)


end
